theory Spec2Isabelle
  imports Main "HOL-Library.AList"
begin

section \<open>Values, dictionaries and exceptions\<close>

text \<open>
  The configuration flow of the integration (config_flow.py) is a class whose step methods
  receive the submitted form as an optional dictionary and return a flow result. Python
  values that travel through the flow untyped (tokens, keywords, station ids, intervals)
  are strings or integers.
\<close>

datatype val = VStr string | VInt int

type_synonym user_input = "(string \<times> val) list"

text \<open>
  Every exception the steps can meet is a value. \<open>OtherException\<close> stands for any other
  subclass of Exception that the client may raise, \<open>OtherBaseException\<close> for one that
  derives from BaseException only. \<open>AbortFlow\<close> is the exception with which the platform's
  helpers for unique ids leave a step; \<open>Invalid\<close> is raised by a schema on bad data.
\<close>

datatype exn =
    OverQuota
  | InvalidToken
  | KeyError val
  | TypeError
  | NameError string
  | UnboundLocalError string
  | AttributeError string
  | SyntaxError
  | AbortFlow string
  | Invalid string
  | OtherException string
  | OtherBaseException string

fun is_Exception :: "exn \<Rightarrow> bool" where
  "is_Exception (OtherBaseException _) = False"
| "is_Exception _ = True"

subsection \<open>const.py\<close>

definition DOMAIN :: string where "DOMAIN = ''waqi-test''"
definition CONF_API_TOKEN :: string where "CONF_API_TOKEN = ''api_token''"
definition CONF_KEYWORD :: string where "CONF_KEYWORD = ''keyword''"
definition CONF_STATION :: string where "CONF_STATION = ''station''"
definition CONF_UPDATE_INTERVAL :: string where "CONF_UPDATE_INTERVAL = ''update_interval''"
definition DEFAULT_UPDATE_INTERVAL :: int where "DEFAULT_UPDATE_INTERVAL = 900"

subsection \<open>Loading config_flow.py\<close>

text \<open>
  Python compiles a module whole before it runs any of it, and its tokenizer refuses a
  closing bracket that does not match the innermost open one. The statement of lines 97-116
  of config_flow.py, which would build the search form shown again after an error, has these
  brackets, line by line:
  \<^verbatim>\<open>
   97  return self.async_show_form(                     (
   99      data_schema=vol.Schema(                       (
  100          {                                         {
  101              vol.Required(                         (
  103                  default=user_input[CONF_API_TOKEN]  [ ]
  104              ): str,                               )
  105              vol.Required(                         (
  106                  CONF_KEYWORD),                    )
  107                  default=user_input[CONF_KEYWORD]  [ ]
  108              ): str,                               )
  109              vol.Optional(                         (
  111                  default=user_input[CONF_UPDATE_INTERVAL]),   [ ] )
  112              ): int,                               )
  113          }                                         }
  114      ),                                            )
  116  )                                                 )
  \<close>
  The parenthesis of line 106 closes \<open>vol.Required\<close> before its \<open>default=\<close> argument, so the
  one of line 108 meets the brace of line 100. Every other statement of the module is
  balanced.
\<close>

datatype kind = Paren | Brace | Square

datatype token = Open kind | Close kind

fun scan :: "kind list \<Rightarrow> token list \<Rightarrow> bool" where
  "scan stack [] = (stack = [])"
| "scan stack (Open k # ts) = scan (k # stack) ts"
| "scan [] (Close k # ts) = False"
| "scan (j # stack) (Close k # ts) = (j = k \<and> scan stack ts)"

definition lines_97_116 :: "token list" where
  "lines_97_116 =
     [Open Paren, Open Paren, Open Brace,
      Open Paren, Open Square, Close Square, Close Paren,
      Open Paren, Close Paren, Open Square, Close Square, Close Paren,
      Open Paren, Open Square, Close Square, Close Paren, Close Paren,
      Close Brace, Close Paren, Close Paren]"

definition import_config_flow :: "exn + unit" where
  \<comment> \<open>what importing the module gives: the classes, or the compiler's exception\<close>
  "import_config_flow = (if scan [] lines_97_116 then Inr () else Inl SyntaxError)"

subsection \<open>Form schemas\<close>

text \<open>
  A form is a list of fields: a marker (\<open>vol.Required\<close> or \<open>vol.Optional\<close>), the key, the
  default when one is given, and the validator of the value (\<open>str\<close>, \<open>int\<close> or
  \<open>vol.In\<close> of a container, which is a list of values or a dictionary).
\<close>

datatype marker = Required | Optional

datatype container = ListOf "val list" | DictOf "(val \<times> val) list"

datatype validator = IsStr | IsInt | In container

datatype field = Field marker string "val option" validator

type_synonym schema = "field list"

definition FLOW_FEED :: string where "FLOW_FEED = ''Enter the station ID''"
definition FLOW_SEARCH :: string where "FLOW_SEARCH = ''Find stations from an area/city name''"
definition FLOW_TYPE :: string where "FLOW_TYPE = ''flow_type''"

definition CONFIG_SCHEMA :: schema where
  "CONFIG_SCHEMA =
     [Field Required FLOW_TYPE (Some (VStr FLOW_SEARCH))
        (In (ListOf [VStr FLOW_SEARCH, VStr FLOW_FEED]))]"

subsection \<open>Flow results\<close>

text \<open>
  \<open>async_show_form(step_id, data_schema, errors)\<close>, \<open>async_create_entry(title, data, options)\<close>
  (the options flow passes no options) and \<open>async_abort(reason)\<close>.
\<close>

datatype flow_result =
    ShowForm string schema "(string \<times> string) list"
  | CreateEntry val user_input "user_input option"
  | Abort string

subsection \<open>The remote client\<close>

text \<open>
  \<open>waqi.WAQIClient(token, session)\<close> is an external library. A search hit is read by the
  flow as \<open>station["uid"]\<close> and \<open>station["station"]["name"]\<close>; a feed is a dictionary or a
  falsy value (\<open>None\<close>, or the empty dictionary). Either call returns or raises.
\<close>

record hit =
  uid :: val
  station_name :: val

type_synonym feed_result = "(string \<times> val) list option"

record WAQIClient =
  search :: "val \<Rightarrow> val \<Rightarrow> exn + hit list"
  feed :: "val \<Rightarrow> val \<Rightarrow> exn + feed_result"

subsection \<open>The flow handler, its state and the platform\<close>

text \<open>
  The attributes of the handler are only annotated in the class body, so each is unset until
  a step assigns it. A step is a function from the handler's state to a result or an
  exception, and the new state. Of the platform the steps see the unique ids of the records
  that exist and the unique ids held by the other flows in progress.
\<close>

record ConfigFlow =
  self_api_token :: "val option"
  self_stations :: "(val \<times> val) list option"
  self_update_interval :: "val option"
  self_unique_id :: "val option"

definition new_flow :: ConfigFlow where
  "new_flow = \<lparr>self_api_token = None, self_stations = None,
               self_update_interval = None, self_unique_id = None\<rparr>"

record platform =
  configured_ids :: "val list"
  in_progress_ids :: "val list"

type_synonym 'a flow = "ConfigFlow \<Rightarrow> (exn + 'a) \<times> ConfigFlow"

definition ret :: "'a \<Rightarrow> 'a flow" where
  "ret x = (\<lambda>self. (Inr x, self))"

definition raise :: "exn \<Rightarrow> 'a flow" where
  "raise e = (\<lambda>self. (Inl e, self))"

definition bind :: "'a flow \<Rightarrow> ('a \<Rightarrow> 'b flow) \<Rightarrow> 'b flow" where
  "bind m f = (\<lambda>self. case m self of (Inl e, self') \<Rightarrow> (Inl e, self')
                                   | (Inr x, self') \<Rightarrow> f x self')"

definition lift :: "exn + 'a \<Rightarrow> 'a flow" where
  "lift r = (\<lambda>self. (r, self))"

definition attempt :: "'a flow \<Rightarrow> (exn + 'a) flow" where
  \<comment> \<open>the body of a try statement: its exception becomes a value for the handlers\<close>
  "attempt m = (\<lambda>self. case m self of (r, self') \<Rightarrow> (Inr r, self'))"

definition loaded :: "'a flow \<Rightarrow> 'a flow" where
  \<comment> \<open>a method of the module runs only once the module has been imported\<close>
  "loaded m = bind (lift import_config_flow) (\<lambda>_. m)"

definition getitem :: "user_input \<Rightarrow> string \<Rightarrow> exn + val" where
  \<comment> \<open>\<open>d[k]\<close> on a dictionary with string keys\<close>
  "getitem d k = (case map_of d k of None \<Rightarrow> Inl (KeyError (VStr k)) | Some v \<Rightarrow> Inr v)"

definition getitem_station :: "(val \<times> val) list \<Rightarrow> val \<Rightarrow> exn + val" where
  \<comment> \<open>\<open>self._stations[k]\<close>\<close>
  "getitem_station d k = (case map_of d k of None \<Rightarrow> Inl (KeyError k) | Some v \<Rightarrow> Inr v)"

definition getattr :: "(ConfigFlow \<Rightarrow> 'a option) \<Rightarrow> string \<Rightarrow> 'a flow" where
  "getattr sel name =
     (\<lambda>self. case sel self of None \<Rightarrow> (Inl (AttributeError name), self)
                            | Some v \<Rightarrow> (Inr v, self))"

definition async_set_unique_id :: "platform \<Rightarrow> val \<Rightarrow> unit flow" where
  \<comment> \<open>platform helper: refuses an id that another flow in progress holds, else records it\<close>
  "async_set_unique_id hass u =
     (\<lambda>self. if u \<in> set (in_progress_ids hass)
              then (Inl (AbortFlow ''already_in_progress''), self)
              else (Inr (), self\<lparr>self_unique_id := Some u\<rparr>))"

definition abort_if_unique_id_configured :: "platform \<Rightarrow> unit flow" where
  \<comment> \<open>platform helper: refuses the recorded id when a record with it exists\<close>
  "abort_if_unique_id_configured hass =
     (\<lambda>self. case self_unique_id self of
                None \<Rightarrow> (Inr (), self)
              | Some u \<Rightarrow> if u \<in> set (configured_ids hass)
                          then (Inl (AbortFlow ''already_configured''), self)
                          else (Inr (), self))"

section \<open>ConfigFlow\<close>

text \<open>
  Each step is given twice. The definition whose name ends in \<open>_body\<close> is the text of the
  function: what its statements compute when they run. The definition with the name of the
  method is the method of the module as it is: it runs the body once the module is loaded.
\<close>

subsection \<open>async_step_pick_station\<close>

definition async_step_pick_station_body ::
    "platform \<Rightarrow> user_input option \<Rightarrow> flow_result flow" where
  "async_step_pick_station_body hass user_input =
     (case user_input of
        Some ui \<Rightarrow>
          bind (lift (getitem ui CONF_STATION)) (\<lambda>unique_id.
          bind (async_set_unique_id hass unique_id) (\<lambda>_.
          bind (abort_if_unique_id_configured hass) (\<lambda>_.
          bind (getattr self_stations ''_stations'') (\<lambda>sts.
          bind (lift (getitem_station sts unique_id)) (\<lambda>title.
          bind (getattr self_api_token ''_api_token'') (\<lambda>tok.
          bind (getattr self_update_interval ''_update_interval'') (\<lambda>iv.
          ret (CreateEntry title []
                 (Some [(CONF_API_TOKEN, tok), (CONF_UPDATE_INTERVAL, iv)])))))))))
      | None \<Rightarrow>
          bind (getattr self_stations ''_stations'') (\<lambda>sts.
          ret (ShowForm ''pick_station''
                 [Field Required CONF_STATION None (In (DictOf sts))] [])))"


subsection \<open>async_step_user_search\<close>

definition user_search_schema :: schema where
  \<comment> \<open>the form shown when there is no input yet (lines 65-78)\<close>
  "user_search_schema =
     [Field Required CONF_API_TOKEN None IsStr,
      Field Required CONF_KEYWORD None IsStr,
      Field Optional CONF_UPDATE_INTERVAL (Some (VInt DEFAULT_UPDATE_INTERVAL)) IsInt]"

definition search_handlers :: "exn \<Rightarrow> (hit list option \<times> (string \<times> string) list) flow" where
  \<comment> \<open>the except clauses of lines 88-93; \<open>found\<close> stays unbound in each. The name
      \<open>CONF_BASE\<close> of line 93 is neither imported nor defined in the module.\<close>
  "search_handlers e =
     (if e = OverQuota then ret (None, [(CONF_API_TOKEN, ''api_over_quota'')])
      else if e = InvalidToken then ret (None, [(CONF_API_TOKEN, ''api_token_invalid'')])
      else if is_Exception e then raise (NameError ''CONF_BASE'')
      else raise e)"

definition collect_stations :: "hit list \<Rightarrow> (val \<times> val) list" where
  \<comment> \<open>the loop of lines 118-122 over an initially empty dictionary\<close>
  "collect_stations found =
     fold (\<lambda>station d. AList.update (uid station) (station_name station) d) found []"

definition async_step_user_search_body ::
    "WAQIClient \<Rightarrow> platform \<Rightarrow> user_input option \<Rightarrow> flow_result flow" where
  "async_step_user_search_body client hass user_input =
     (case user_input of
        None \<Rightarrow> ret (ShowForm ''user_search'' user_search_schema [])
      | Some [] \<Rightarrow> ret (ShowForm ''user_search'' user_search_schema [])
      | Some ui \<Rightarrow>
          bind (attempt
                 (bind (lift (getitem ui CONF_API_TOKEN)) (\<lambda>tok.
                  bind (lift (getitem ui CONF_KEYWORD)) (\<lambda>kw.
                  bind (lift (search client tok kw)) (\<lambda>found.
                  ret (Some found,
                       if found = [] then [(CONF_KEYWORD, ''no_matching_stations_found'')]
                       else []))))))
          (\<lambda>r. bind (case r of Inl e \<Rightarrow> search_handlers e | Inr env \<Rightarrow> ret env)
          (\<lambda>(found, errors).
             if errors \<noteq> [] then raise SyntaxError
             else
               bind (case found of None \<Rightarrow> raise (UnboundLocalError ''found'')
                                 | Some fs \<Rightarrow> ret fs) (\<lambda>fs.
               bind (\<lambda>self. (Inr (), self\<lparr>self_stations := Some (collect_stations fs)\<rparr>)) (\<lambda>_.
               bind (lift (getitem ui CONF_API_TOKEN)) (\<lambda>tok.
               bind (\<lambda>self. (Inr (), self\<lparr>self_api_token := Some tok\<rparr>)) (\<lambda>_.
               bind (lift (getitem ui CONF_UPDATE_INTERVAL)) (\<lambda>iv.
               bind (\<lambda>self. (Inr (), self\<lparr>self_update_interval := Some iv\<rparr>)) (\<lambda>_.
               async_step_pick_station_body hass None)))))))))"

text \<open>
  In the body of the search step the statement of lines 97-116 has no value to give, being
  the text that does not parse; the branch that reaches it carries the compiler's exception.
\<close>

definition async_step_user_search ::
    "WAQIClient \<Rightarrow> platform \<Rightarrow> user_input option \<Rightarrow> flow_result flow" where
  "async_step_user_search client hass user_input =
     loaded (async_step_user_search_body client hass user_input)"

subsection \<open>async_step_user_feed\<close>

definition user_feed_schema :: schema where
  "user_feed_schema =
     [Field Required CONF_API_TOKEN None IsStr,
      Field Required CONF_STATION None IsStr,
      Field Optional CONF_UPDATE_INTERVAL (Some (VInt DEFAULT_UPDATE_INTERVAL)) IsInt]"

definition station_uid :: "feed_result option \<Rightarrow> exn + val" where
  \<comment> \<open>\<open>station["uid"]\<close> of line 187: the local may be unbound, \<open>None\<close>, or a dictionary\<close>
  "station_uid station =
     (case station of
        None \<Rightarrow> Inl (UnboundLocalError ''station'')
      | Some None \<Rightarrow> Inl TypeError
      | Some (Some d) \<Rightarrow> getitem d ''uid'')"

definition feed_create_entry ::
    "user_input \<Rightarrow> feed_result option \<Rightarrow> (string \<times> string) list \<Rightarrow> flow_result flow" where
  \<comment> \<open>lines 186-193, reached after the try statement whatever \<open>errors\<close> holds\<close>
  "feed_create_entry ui station errors =
     bind (lift (station_uid station)) (\<lambda>title.
     bind (lift (getitem ui CONF_API_TOKEN)) (\<lambda>tok.
     bind (lift (getitem ui CONF_UPDATE_INTERVAL)) (\<lambda>iv.
     ret (CreateEntry title [] (Some [(CONF_API_TOKEN, tok), (CONF_UPDATE_INTERVAL, iv)])))))"

definition falsy_feed :: "feed_result \<Rightarrow> bool" where
  "falsy_feed station = (station = None \<or> station = Some [])"

definition async_step_user_feed_body ::
    "WAQIClient \<Rightarrow> platform \<Rightarrow> user_input option \<Rightarrow> flow_result flow" where
  "async_step_user_feed_body client hass user_input =
     (case user_input of
        Some ui \<Rightarrow>
          bind (attempt
                 (bind (lift (getitem ui CONF_API_TOKEN)) (\<lambda>tok.
                  bind (lift (getitem ui CONF_STATION)) (\<lambda>sid.
                  bind (lift (feed client tok sid)) (\<lambda>station.
                  ret (station,
                       if falsy_feed station then [(CONF_STATION, ''no_station_feed_found'')]
                       else []))))))
          (\<lambda>r. case r of
             Inl e \<Rightarrow>
               if e = OverQuota
               then feed_create_entry ui None [(CONF_API_TOKEN, ''api_over_quota'')]
               else if e = InvalidToken
               then feed_create_entry ui None [(CONF_API_TOKEN, ''api_token_invalid'')]
               else ret (Abort ''unknown'')
           | Inr (station, errors) \<Rightarrow>
               bind (lift (getitem ui CONF_STATION)) (\<lambda>unique_id.
               bind (async_set_unique_id hass unique_id) (\<lambda>_.
               bind (abort_if_unique_id_configured hass) (\<lambda>_.
               feed_create_entry ui (Some station) errors))))
      | None \<Rightarrow> ret (ShowForm ''user_feed'' user_feed_schema []))"

definition async_step_user_feed ::
    "WAQIClient \<Rightarrow> platform \<Rightarrow> user_input option \<Rightarrow> flow_result flow" where
  "async_step_user_feed client hass user_input =
     loaded (async_step_user_feed_body client hass user_input)"

subsection \<open>async_step_user\<close>

definition async_step_user_body ::
    "WAQIClient \<Rightarrow> platform \<Rightarrow> user_input option \<Rightarrow> flow_result flow" where
  "async_step_user_body client hass user_input =
     (case user_input of
        Some ui \<Rightarrow>
          bind (lift (getitem ui FLOW_TYPE)) (\<lambda>flow_type.
            if flow_type = VStr FLOW_SEARCH then async_step_user_search_body client hass None
            else if flow_type = VStr FLOW_FEED then async_step_user_feed_body client hass None
            else ret (ShowForm ''user'' CONFIG_SCHEMA []))
      | None \<Rightarrow> ret (ShowForm ''user'' CONFIG_SCHEMA []))"

definition async_step_user ::
    "WAQIClient \<Rightarrow> platform \<Rightarrow> user_input option \<Rightarrow> flow_result flow" where
  "async_step_user client hass user_input =
     loaded (async_step_user_body client hass user_input)"

section \<open>OptionsFlow\<close>

record ConfigEntry =
  options :: user_input

definition dict_get :: "user_input \<Rightarrow> string \<Rightarrow> val \<Rightarrow> val" where
  \<comment> \<open>\<open>d.get(k, default)\<close>\<close>
  "dict_get d k dflt = (case map_of d k of None \<Rightarrow> dflt | Some v \<Rightarrow> v)"

definition options_schema :: "ConfigEntry \<Rightarrow> schema" where
  \<comment> \<open>lines 234-244\<close>
  "options_schema config_entry =
     [Field Required CONF_API_TOKEN None IsStr,
      Field Optional CONF_UPDATE_INTERVAL
        (Some (dict_get (options config_entry) CONF_UPDATE_INTERVAL
                 (VInt DEFAULT_UPDATE_INTERVAL))) IsInt]"

definition async_step_init_body :: "ConfigEntry \<Rightarrow> user_input option \<Rightarrow> flow_result" where
  "async_step_init_body config_entry user_input =
     (case user_input of
        Some ui \<Rightarrow> CreateEntry (VStr []) ui None
      | None \<Rightarrow> ShowForm ''init'' (options_schema config_entry) [])"


section \<open>The platform around the steps\<close>

text \<open>
  The platform validates a submission against the schema of the form it last showed and
  calls the step with the validated dictionary; an \<open>AbortFlow\<close> that leaves the step ends
  the flow with that reason; a created entry is stored under the handler's unique id.
  These are the platform's and the schema library's documented behaviour, not code of this
  repository.
\<close>

fun check_value :: "validator \<Rightarrow> val \<Rightarrow> bool" where
  "check_value IsStr (VStr _) = True"
| "check_value IsStr (VInt _) = False"
| "check_value IsInt (VInt _) = True"
| "check_value IsInt (VStr _) = False"
| "check_value (In (ListOf allowed)) v = (v \<in> set allowed)"
| "check_value (In (DictOf allowed)) v = (v \<in> set (map fst allowed))"

fun field_key :: "field \<Rightarrow> string" where
  "field_key (Field _ k _ _) = k"

fun validate_fields :: "schema \<Rightarrow> user_input \<Rightarrow> exn + user_input" where
  "validate_fields [] d = Inr []"
| "validate_fields (Field m k dflt v # fs) d =
     (case (case map_of d k of Some x \<Rightarrow> Some x | None \<Rightarrow> dflt) of
        None \<Rightarrow> (if m = Required then Inl (Invalid ''required key not provided'')
                 else validate_fields fs d)
      | Some x \<Rightarrow>
          if check_value v x
          then (case validate_fields fs d of Inl e \<Rightarrow> Inl e | Inr out \<Rightarrow> Inr ((k, x) # out))
          else Inl (Invalid ''invalid value''))"

definition schema_call :: "schema \<Rightarrow> user_input \<Rightarrow> exn + user_input" where
  "schema_call sch d =
     (if list_all (\<lambda>k. k \<in> set (map field_key sch)) (map fst d)
      then validate_fields sch d
      else Inl (Invalid ''extra keys not allowed''))"

definition handle_step :: "(exn + flow_result) \<times> ConfigFlow \<Rightarrow> (exn + flow_result) \<times> ConfigFlow" where
  "handle_step out =
     (case out of (Inl (AbortFlow reason), self) \<Rightarrow> (Inr (Abort reason), self)
                | _ \<Rightarrow> out)"

definition async_configure ::
    "schema \<Rightarrow> (user_input option \<Rightarrow> flow_result flow) \<Rightarrow> user_input \<Rightarrow> flow_result flow" where
  "async_configure sch step submitted =
     (\<lambda>self. case schema_call sch submitted of
                Inl e \<Rightarrow> (Inl e, self)
              | Inr ui \<Rightarrow> handle_step (step (Some ui) self))"

definition async_finish_flow :: "platform \<Rightarrow> (exn + flow_result) \<times> ConfigFlow \<Rightarrow> val list" where
  \<comment> \<open>the unique ids of the stored records after a step's outcome\<close>
  "async_finish_flow hass out =
     (case out of
        (Inr (CreateEntry _ _ _), self) \<Rightarrow>
          (case self_unique_id self of
             None \<Rightarrow> configured_ids hass
           | Some u \<Rightarrow> configured_ids hass @ [u])
      | _ \<Rightarrow> configured_ids hass)"

section \<open>Properties\<close>

lemmas const_defs =
  DOMAIN_def CONF_API_TOKEN_def CONF_KEYWORD_def CONF_STATION_def CONF_UPDATE_INTERVAL_def
  DEFAULT_UPDATE_INTERVAL_def FLOW_FEED_def FLOW_SEARCH_def FLOW_TYPE_def

lemmas flow_defs =
  ret_def raise_def bind_def lift_def attempt_def getitem_def getitem_station_def getattr_def
  async_set_unique_id_def abort_if_unique_id_configured_def

subsection \<open>The module does not load\<close>

lemma import_config_flow_fails: "import_config_flow = Inl SyntaxError"
  by (simp add: import_config_flow_def lines_97_116_def)

lemma loaded_fails: "loaded m self = (Inl SyntaxError, self)"
  by (simp add: loaded_def bind_def lift_def import_config_flow_fails)


subsection \<open>The feed step\<close>

lemma feed_body_success:
  assumes "feed client tok sid = Inr (Some fd)" and "map_of fd ''uid'' = Some u"
    and "sid \<notin> set (configured_ids hass)" and "sid \<notin> set (in_progress_ids hass)"
    and "map_of ui CONF_API_TOKEN = Some tok" and "map_of ui CONF_STATION = Some sid"
    and "map_of ui CONF_UPDATE_INTERVAL = Some iv"
  shows "async_step_user_feed_body client hass (Some ui) self
         = (Inr (CreateEntry u [] (Some [(CONF_API_TOKEN, tok), (CONF_UPDATE_INTERVAL, iv)])),
            self\<lparr>self_unique_id := Some sid\<rparr>)"
  using assms
  by (simp add: async_step_user_feed_body_def feed_create_entry_def station_uid_def flow_defs)

lemma feed_body_token_error_unbound_station:
  assumes "map_of ui CONF_API_TOKEN = Some tok" and "map_of ui CONF_STATION = Some sid"
    and "feed client tok sid = Inl e" and "e = OverQuota \<or> e = InvalidToken"
  shows "async_step_user_feed_body client hass (Some ui) self
         = (Inl (UnboundLocalError ''station''), self)"
  using assms
  by (auto simp add: async_step_user_feed_body_def feed_create_entry_def station_uid_def
      flow_defs)

lemma feed_body_falsy_never_form:
  assumes "map_of ui CONF_API_TOKEN = Some tok" and "map_of ui CONF_STATION = Some sid"
    and "feed client tok sid = Inr station" and "falsy_feed station"
  shows "fst (async_step_user_feed_body client hass (Some ui) self)
         \<in> {Inl (AbortFlow ''already_in_progress''), Inl (AbortFlow ''already_configured''),
            Inl TypeError, Inl (KeyError (VStr ''uid''))}"
  using assms
  by (auto simp add: async_step_user_feed_body_def feed_create_entry_def station_uid_def
      falsy_feed_def flow_defs)

lemma feed_body_other_failure_aborts:
  assumes "map_of ui CONF_API_TOKEN = Some tok"
    and "map_of ui CONF_STATION = Some sid"
    and "feed client tok sid = Inl e"
    and "e \<noteq> OverQuota" and "e \<noteq> InvalidToken"
  shows "async_step_user_feed_body client hass (Some ui) self = (Inr (Abort ''unknown''), self)"
  using assms by (simp add: async_step_user_feed_body_def flow_defs)

lemma user_feed_schema_default:
  assumes "map_of d CONF_API_TOKEN = Some tok" and "map_of d CONF_STATION = Some sid"
    and "map_of d CONF_UPDATE_INTERVAL = None"
    and "check_value IsStr tok" and "check_value IsStr sid"
    and "fst ` set d \<subseteq> {CONF_API_TOKEN, CONF_STATION}"
  shows "schema_call user_feed_schema d
         = Inr [(CONF_API_TOKEN, tok), (CONF_STATION, sid),
                (CONF_UPDATE_INTERVAL, VInt 900)]"
proof -
  have "list_all (\<lambda>k. k \<in> set (map field_key user_feed_schema)) (map fst d)"
    using assms(6) by (auto simp add: list_all_iff user_feed_schema_def)
  then show ?thesis
    using assms(1-5)
    by (simp add: schema_call_def user_feed_schema_def DEFAULT_UPDATE_INTERVAL_def)
qed

lemma feed_body_default_interval:
  assumes "feed client tok sid = Inr (Some fd)" and "map_of fd ''uid'' = Some u"
    and "sid \<notin> set (configured_ids hass)" and "sid \<notin> set (in_progress_ids hass)"
    and "map_of ui CONF_API_TOKEN = Some tok" and "map_of ui CONF_STATION = Some sid"
    and "map_of ui CONF_UPDATE_INTERVAL = None"
    and "check_value IsStr tok" and "check_value IsStr sid"
    and "fst ` set ui \<subseteq> {CONF_API_TOKEN, CONF_STATION}"
  shows "async_configure user_feed_schema (async_step_user_feed_body client hass) ui self
         = (Inr (CreateEntry u []
                   (Some [(CONF_API_TOKEN, tok), (CONF_UPDATE_INTERVAL, VInt 900)])),
            self\<lparr>self_unique_id := Some sid\<rparr>)"
proof -
  have valid: "schema_call user_feed_schema ui
         = Inr [(CONF_API_TOKEN, tok), (CONF_STATION, sid), (CONF_UPDATE_INTERVAL, VInt 900)]"
    using assms(5-10) by (rule user_feed_schema_default)
  have step: "async_step_user_feed_body client hass
                (Some [(CONF_API_TOKEN, tok), (CONF_STATION, sid),
                       (CONF_UPDATE_INTERVAL, VInt 900)]) self
              = (Inr (CreateEntry u []
                      (Some [(CONF_API_TOKEN, tok), (CONF_UPDATE_INTERVAL, VInt 900)])),
               self\<lparr>self_unique_id := Some sid\<rparr>)"
    using assms(1-4) by (intro feed_body_success[where fd = fd]) (simp_all add: const_defs)
  show ?thesis
    by (simp add: async_configure_def valid step handle_step_def)
qed

text \<open>
  C1. The claim: in the feed step, when the feed call fails with OverQuota or InvalidToken, or
  returns a falsy feed, the step sets a field error and shows the form again, never aborting
  and never creating an entry. The body of the step does set the entry in \<open>errors\<close>, but
  nothing reads it: after the try statement control reaches \<open>async_create_entry\<close> of line
  186, whose title \<open>station["uid"]\<close> raises (the local is unbound after either exception,
  and a falsy feed has no \<open>uid\<close>); with a falsy feed and a station id that is already
  configured, the else clause aborts the flow first. The search step guards the same place
  with \<open>if errors:\<close>. The theorem evaluates the body at these submissions, and the method of
  the module as it is, which fails before the body.
\<close>

theorem feed_errors_fall_through:
  "fst (async_step_user_feed_body \<lparr>search = \<lambda>_ _. Inr [], feed = \<lambda>_ _. Inl OverQuota\<rparr>
     \<lparr>configured_ids = [], in_progress_ids = []\<rparr>
     (Some [(CONF_API_TOKEN, VStr ''T''), (CONF_STATION, VStr ''5000''),
            (CONF_UPDATE_INTERVAL, VInt 900)]) new_flow)
   = Inl (UnboundLocalError ''station'')
  \<and> fst (async_step_user_feed_body \<lparr>search = \<lambda>_ _. Inr [], feed = \<lambda>_ _. Inl InvalidToken\<rparr>
     \<lparr>configured_ids = [], in_progress_ids = []\<rparr>
     (Some [(CONF_API_TOKEN, VStr ''T''), (CONF_STATION, VStr ''5000''),
            (CONF_UPDATE_INTERVAL, VInt 900)]) new_flow)
   = Inl (UnboundLocalError ''station'')
  \<and> fst (async_step_user_feed_body \<lparr>search = \<lambda>_ _. Inr [], feed = \<lambda>_ _. Inr (Some [])\<rparr>
     \<lparr>configured_ids = [], in_progress_ids = []\<rparr>
     (Some [(CONF_API_TOKEN, VStr ''T''), (CONF_STATION, VStr ''5000''),
            (CONF_UPDATE_INTERVAL, VInt 900)]) new_flow)
   = Inl (KeyError (VStr ''uid''))
  \<and> fst (async_step_user_feed_body \<lparr>search = \<lambda>_ _. Inr [], feed = \<lambda>_ _. Inr None\<rparr>
     \<lparr>configured_ids = [], in_progress_ids = []\<rparr>
     (Some [(CONF_API_TOKEN, VStr ''T''), (CONF_STATION, VStr ''5000''),
            (CONF_UPDATE_INTERVAL, VInt 900)]) new_flow)
   = Inl TypeError
  \<and> fst (handle_step (async_step_user_feed_body
       \<lparr>search = \<lambda>_ _. Inr [], feed = \<lambda>_ _. Inr (Some [])\<rparr>
       \<lparr>configured_ids = [VStr ''5000''], in_progress_ids = []\<rparr>
       (Some [(CONF_API_TOKEN, VStr ''T''), (CONF_STATION, VStr ''5000''),
              (CONF_UPDATE_INTERVAL, VInt 900)]) new_flow))
   = Inr (Abort ''already_configured'')
  \<and> fst (async_step_user_feed \<lparr>search = \<lambda>_ _. Inr [], feed = \<lambda>_ _. Inl OverQuota\<rparr>
     \<lparr>configured_ids = [], in_progress_ids = []\<rparr>
     (Some [(CONF_API_TOKEN, VStr ''T''), (CONF_STATION, VStr ''5000''),
            (CONF_UPDATE_INTERVAL, VInt 900)]) new_flow)
   = Inl SyntaxError"
  by (simp add: async_step_user_feed_def loaded_fails async_step_user_feed_body_def
      feed_create_entry_def station_uid_def falsy_feed_def handle_step_def flow_defs const_defs
      new_flow_def)



subsection \<open>Unique ids\<close>

lemma duplicate_station_body_aborts:
  assumes "u \<in> set (configured_ids hass)" and "u \<notin> set (in_progress_ids hass)"
  shows "(map_of ui CONF_STATION = Some u \<longrightarrow>
            handle_step (async_step_pick_station_body hass (Some ui) self)
            = (Inr (Abort ''already_configured''), self\<lparr>self_unique_id := Some u\<rparr>))
       \<and> (map_of ui CONF_API_TOKEN = Some tok \<and> map_of ui CONF_STATION = Some u
            \<and> feed client tok u = Inr station \<longrightarrow>
            handle_step (async_step_user_feed_body client hass (Some ui) self)
            = (Inr (Abort ''already_configured''), self\<lparr>self_unique_id := Some u\<rparr>))"
  using assms
  by (simp add: async_step_pick_station_body_def async_step_user_feed_body_def handle_step_def
      flow_defs)

lemma pick_station_body_keeps_distinct:
  "distinct (configured_ids hass) \<Longrightarrow>
   distinct (async_finish_flow hass (async_step_pick_station_body hass input self))"
  by (auto simp add: async_step_pick_station_body_def async_finish_flow_def flow_defs
      split: option.splits sum.splits flow_result.splits if_splits prod.splits)

lemma user_feed_body_keeps_distinct:
  "distinct (configured_ids hass) \<Longrightarrow>
   distinct (async_finish_flow hass (async_step_user_feed_body client hass input self))"
  by (auto simp add: async_step_user_feed_body_def feed_create_entry_def station_uid_def
      async_finish_flow_def flow_defs
      split: option.splits sum.splits flow_result.splits if_splits prod.splits)


subsection \<open>The search step\<close>

text \<open>
  C2. The claim: when the search call fails with OverQuota, the form is shown again with
  the error \<open>api_over_quota\<close> on the token field and the entered token, keyword and
  interval as defaults. The handler of line 89 sets that error, and the step then reaches the
  statement of lines 97-116, which the source leaves malformed: no form comes out of it.
\<close>

theorem search_quota_form_malformed:
  "fst (async_step_user_search \<lparr>search = \<lambda>_ _. Inl OverQuota, feed = \<lambda>_ _. Inr None\<rparr>
     \<lparr>configured_ids = [], in_progress_ids = []\<rparr>
     (Some [(CONF_API_TOKEN, VStr ''T''), (CONF_KEYWORD, VStr ''paris''),
            (CONF_UPDATE_INTERVAL, VInt 600)]) new_flow)
   = Inl SyntaxError
   \<and> fst (async_step_user_search_body
        \<lparr>search = \<lambda>_ _. Inl OverQuota, feed = \<lambda>_ _. Inr None\<rparr>
        \<lparr>configured_ids = [], in_progress_ids = []\<rparr>
        (Some [(CONF_API_TOKEN, VStr ''T''), (CONF_KEYWORD, VStr ''paris''),
               (CONF_UPDATE_INTERVAL, VInt 600)]) new_flow)
   = Inl SyntaxError"
  by (simp add: async_step_user_search_def loaded_fails async_step_user_search_body_def
      search_handlers_def flow_defs const_defs new_flow_def)

lemma search_body_other_failure:
  assumes "map_of ui CONF_API_TOKEN = Some tok" "map_of ui CONF_KEYWORD = Some kw"
    "search client tok kw = Inl e" "e \<noteq> OverQuota" "e \<noteq> InvalidToken" "is_Exception e"
  shows "async_step_user_search_body client hass (Some ui) self
         = (Inl (NameError ''CONF_BASE''), self)"
  using assms
  by (cases ui) (auto simp add: async_step_user_search_body_def search_handlers_def flow_defs)

text \<open>
  C3. The claim: when the search call fails with any other exception, the form is shown
  again with the base error "unknown". The handler of line 93 names \<open>CONF_BASE\<close>, which
  the module neither imports nor defines, so the handler itself raises NameError and the
  body shows no form; the method of the module as it is fails before the body.
\<close>

theorem search_other_failure_name_error:
  "fst (async_step_user_search_body
          \<lparr>search = \<lambda>_ _. Inl (OtherException ''timeout''), feed = \<lambda>_ _. Inr None\<rparr>
          \<lparr>configured_ids = [], in_progress_ids = []\<rparr>
     (Some [(CONF_API_TOKEN, VStr ''T''), (CONF_KEYWORD, VStr ''paris''),
            (CONF_UPDATE_INTERVAL, VInt 600)]) new_flow)
   = Inl (NameError ''CONF_BASE'')
   \<and> fst (async_step_user_search
          \<lparr>search = \<lambda>_ _. Inl (OtherException ''timeout''), feed = \<lambda>_ _. Inr None\<rparr>
          \<lparr>configured_ids = [], in_progress_ids = []\<rparr>
     (Some [(CONF_API_TOKEN, VStr ''T''), (CONF_KEYWORD, VStr ''paris''),
            (CONF_UPDATE_INTERVAL, VInt 600)]) new_flow)
   = Inl SyntaxError"
  by (simp add: async_step_user_search_def loaded_fails async_step_user_search_body_def
      search_handlers_def flow_defs const_defs new_flow_def)

lemma update_fresh: "k \<notin> fst ` set d \<Longrightarrow> AList.update k v d = d @ [(k, v)]"
  by (induction d) auto

lemma fold_update_map_of:
  "map_of (fold (\<lambda>station d. AList.update (uid station) (station_name station) d) found d0)
   = map_of d0 ++ map_of (rev (map (\<lambda>h. (uid h, station_name h)) found))"
proof (induction found arbitrary: d0)
  case Nil
  then show ?case by simp
next
  case (Cons h t)
  show ?case
    by (rule ext) (simp add: Cons.IH update_conv' map_add_def fun_upd_def split: option.splits)
qed

lemma fold_update_keys:
  "fst ` set (fold (\<lambda>station d. AList.update (uid station) (station_name station) d) found d0)
   = fst ` set d0 \<union> uid ` set found"
  by (induction found arbitrary: d0) (auto simp add: dom_update)

lemma fold_update_distinct:
  "distinct (map fst d0) \<Longrightarrow>
   distinct (map fst (fold (\<lambda>station d. AList.update (uid station) (station_name station) d) found d0))"
  by (induction found arbitrary: d0) (auto simp add: distinct_update)

lemma fold_update_fresh:
  "distinct (map uid found) \<Longrightarrow> uid ` set found \<inter> fst ` set d0 = {} \<Longrightarrow>
   fold (\<lambda>station d. AList.update (uid station) (station_name station) d) found d0
   = d0 @ map (\<lambda>h. (uid h, station_name h)) found"
proof (induction found arbitrary: d0)
  case Nil
  then show ?case by simp
next
  case (Cons h t)
  have fresh: "uid h \<notin> fst ` set d0" using Cons.prems(2) by auto
  have "uid ` set t \<inter> fst ` set (d0 @ [(uid h, station_name h)]) = {}"
    using Cons.prems by auto
  with Cons.IH[of "d0 @ [(uid h, station_name h)]"] Cons.prems(1) fresh
  show ?case by (simp add: update_fresh)
qed

lemma collect_stations_map_of:
  "map_of (collect_stations found) = map_of (rev (map (\<lambda>h. (uid h, station_name h)) found))"
  by (simp add: collect_stations_def fold_update_map_of)

lemma collect_stations_keys: "set (map fst (collect_stations found)) = uid ` set found"
  using fold_update_keys[of found "[]"] by (simp add: collect_stations_def)

lemma collect_stations_distinct: "distinct (map fst (collect_stations found))"
  using fold_update_distinct[of "[]" found] by (simp add: collect_stations_def)

lemma collect_stations_length: "length (collect_stations found) = card (uid ` set found)"
  using distinct_card[OF collect_stations_distinct[of found]] collect_stations_keys[of found]
  by simp

lemma collect_stations_distinct_ids:
  "distinct (map uid found) \<Longrightarrow> collect_stations found = map (\<lambda>h. (uid h, station_name h)) found"
  using fold_update_fresh[of found "[]"] by (simp add: collect_stations_def)

lemma search_body_success:
  assumes "map_of ui CONF_API_TOKEN = Some tok" "map_of ui CONF_KEYWORD = Some kw"
    "map_of ui CONF_UPDATE_INTERVAL = Some iv" "search client tok kw = Inr found" "found \<noteq> []"
  shows "async_step_user_search_body client hass (Some ui) self
         = (Inr (ShowForm ''pick_station''
                   [Field Required CONF_STATION None (In (DictOf (collect_stations found)))] []),
            self\<lparr>self_stations := Some (collect_stations found), self_api_token := Some tok,
                 self_update_interval := Some iv\<rparr>)"
  using assms
  by (cases ui)
    (auto simp add: async_step_user_search_body_def async_step_pick_station_body_def flow_defs)

lemma pick_station_body_creates:
  assumes "self_stations self = Some sts" "self_api_token self = Some tok"
    "self_update_interval self = Some iv"
    "map_of ui CONF_STATION = Some sel" "map_of sts sel = Some name"
    "sel \<notin> set (configured_ids hass)" "sel \<notin> set (in_progress_ids hass)"
  shows "async_step_pick_station_body hass (Some ui) self
         = (Inr (CreateEntry name [] (Some [(CONF_API_TOKEN, tok), (CONF_UPDATE_INTERVAL, iv)])),
            self\<lparr>self_unique_id := Some sel\<rparr>)"
  using assms by (simp add: async_step_pick_station_body_def flow_defs)

text \<open>
  C6, as stated: a search that returns N > 0 results gives the station step exactly N
  selectable entries, keyed by station id with the matching names. Here the search returns
  two results with the same station id: the body of the step, which collects the stations in
  a dictionary keyed by id, offers one entry, under the second name; and the method of the
  module as it is offers none, since the module does not load.
\<close>

theorem search_duplicate_ids_counterexample:
  "fst (async_step_user_search_body
          \<lparr>search = \<lambda>_ _. Inr [\<lparr>uid = VStr ''A1'', station_name = VStr ''Paris Center''\<rparr>,
                                \<lparr>uid = VStr ''A1'', station_name = VStr ''Paris Nord''\<rparr>],
           feed = \<lambda>_ _. Inr None\<rparr>
          \<lparr>configured_ids = [], in_progress_ids = []\<rparr>
          (Some [(CONF_API_TOKEN, VStr ''T''), (CONF_KEYWORD, VStr ''paris''),
                 (CONF_UPDATE_INTERVAL, VInt 600)]) new_flow)
   = Inr (ShowForm ''pick_station''
            [Field Required CONF_STATION None (In (DictOf [(VStr ''A1'', VStr ''Paris Nord'')]))]
            [])
   \<and> length [\<lparr>uid = VStr ''A1'', station_name = VStr ''Paris Center''\<rparr>,
             \<lparr>uid = VStr ''A1'', station_name = VStr ''Paris Nord''\<rparr>] = 2
   \<and> length [(VStr ''A1'', VStr ''Paris Nord'')] \<noteq> 2
   \<and> fst (async_step_user_search
          \<lparr>search = \<lambda>_ _. Inr [\<lparr>uid = VStr ''A1'', station_name = VStr ''Paris Center''\<rparr>,
                                \<lparr>uid = VStr ''A1'', station_name = VStr ''Paris Nord''\<rparr>],
           feed = \<lambda>_ _. Inr None\<rparr>
          \<lparr>configured_ids = [], in_progress_ids = []\<rparr>
          (Some [(CONF_API_TOKEN, VStr ''T''), (CONF_KEYWORD, VStr ''paris''),
                 (CONF_UPDATE_INTERVAL, VInt 600)]) new_flow)
   = Inl SyntaxError"
  by (simp add: async_step_user_search_def loaded_fails async_step_user_search_body_def
      async_step_pick_station_body_def collect_stations_def flow_defs const_defs new_flow_def)

text \<open>
  C6, amended. This states the search and station steps as their functions are written, and
  leaves aside that the module does not load (C2) and that another flow in progress may hold
  the chosen id (a state that only the defect of C1 leaves behind). After a search that
  returns a non-empty list, the station form offers the dictionary of the stations found:
  one entry per distinct station id of the results, each with the display name of the last
  result that carries the id; a value is accepted by the form exactly when it is one of
  these ids; when the ids are pairwise distinct the entries are exactly the N results, in
  order. Submitting one of the offered ids that is not configured yet creates an entry whose
  title is that station's display name, whose data is empty, and whose options are the token
  and the interval entered in the search form.
\<close>

theorem search_then_pick_creates_entry:
  assumes "map_of ui CONF_API_TOKEN = Some tok" and "map_of ui CONF_KEYWORD = Some kw"
    and "map_of ui CONF_UPDATE_INTERVAL = Some iv"
    and "search client tok kw = Inr found" and "found \<noteq> []"
  shows "fst (async_step_user_search_body client hass (Some ui) self)
           = Inr (ShowForm ''pick_station''
                    [Field Required CONF_STATION None (In (DictOf (collect_stations found)))] [])
       \<and> distinct (map fst (collect_stations found))
       \<and> set (map fst (collect_stations found)) = uid ` set found
       \<and> check_value (In (DictOf (collect_stations found))) sel = (sel \<in> uid ` set found)
       \<and> map_of (collect_stations found)
           = map_of (rev (map (\<lambda>h. (uid h, station_name h)) found))
       \<and> (distinct (map uid found) \<longrightarrow>
            collect_stations found = map (\<lambda>h. (uid h, station_name h)) found
            \<and> length (collect_stations found) = length found)
       \<and> (map_of (collect_stations found) sel = Some name
            \<and> sel \<notin> set (configured_ids hass) \<and> sel \<notin> set (in_progress_ids hass)
            \<and> map_of chosen CONF_STATION = Some sel \<longrightarrow>
            fst (async_step_pick_station_body hass (Some chosen)
                   (snd (async_step_user_search_body client hass (Some ui) self)))
            = Inr (CreateEntry name []
                     (Some [(CONF_API_TOKEN, tok), (CONF_UPDATE_INTERVAL, iv)])))"
proof -
  have form: "async_step_user_search_body client hass (Some ui) self
         = (Inr (ShowForm ''pick_station''
                   [Field Required CONF_STATION None (In (DictOf (collect_stations found)))] []),
            self\<lparr>self_stations := Some (collect_stations found), self_api_token := Some tok,
                 self_update_interval := Some iv\<rparr>)"
    using assms by (rule search_body_success)
  have pick: "fst (async_step_pick_station_body hass (Some chosen)
                   (snd (async_step_user_search_body client hass (Some ui) self)))
            = Inr (CreateEntry name []
                     (Some [(CONF_API_TOKEN, tok), (CONF_UPDATE_INTERVAL, iv)]))"
    if "map_of (collect_stations found) sel = Some name" "sel \<notin> set (configured_ids hass)"
      "sel \<notin> set (in_progress_ids hass)" "map_of chosen CONF_STATION = Some sel"
    using that
    by (simp add: form pick_station_body_creates[where sts = "collect_stations found"])
  have ids: "distinct (map uid found) \<longrightarrow>
            collect_stations found = map (\<lambda>h. (uid h, station_name h)) found
            \<and> length (collect_stations found) = length found"
    by (simp add: collect_stations_distinct_ids)
  have accepted: "check_value (In (DictOf (collect_stations found))) sel
                  = (sel \<in> uid ` set found)"
    using collect_stations_keys[of found] by simp
  show ?thesis
    using form collect_stations_distinct[of found] collect_stations_keys[of found]
      collect_stations_map_of[of found] ids pick accepted
    by (simp only: fst_conv) blast
qed

theorem search_then_pick_creates_entry_witness:
  "fst (async_step_user_search_body
          \<lparr>search = \<lambda>_ _. Inr [\<lparr>uid = VStr ''A1'', station_name = VStr ''Paris Center''\<rparr>,
                                \<lparr>uid = VStr ''A2'', station_name = VStr ''Paris Nord''\<rparr>,
                                \<lparr>uid = VStr ''A1'', station_name = VStr ''Paris Les Halles''\<rparr>],
           feed = \<lambda>_ _. Inr None\<rparr>
          \<lparr>configured_ids = [VStr ''A2''], in_progress_ids = []\<rparr>
          (Some [(CONF_API_TOKEN, VStr ''T''), (CONF_KEYWORD, VStr ''paris''),
                 (CONF_UPDATE_INTERVAL, VInt 600)]) new_flow)
   = Inr (ShowForm ''pick_station''
            [Field Required CONF_STATION None
               (In (DictOf [(VStr ''A1'', VStr ''Paris Les Halles''),
                            (VStr ''A2'', VStr ''Paris Nord'')]))] [])
   \<and> fst (async_step_pick_station_body
           \<lparr>configured_ids = [VStr ''A2''], in_progress_ids = []\<rparr>
           (Some [(CONF_STATION, VStr ''A1'')])
           (snd (async_step_user_search_body
              \<lparr>search = \<lambda>_ _. Inr [\<lparr>uid = VStr ''A1'', station_name = VStr ''Paris Center''\<rparr>,
                                    \<lparr>uid = VStr ''A2'', station_name = VStr ''Paris Nord''\<rparr>,
                                    \<lparr>uid = VStr ''A1'', station_name = VStr ''Paris Les Halles''\<rparr>],
               feed = \<lambda>_ _. Inr None\<rparr>
              \<lparr>configured_ids = [VStr ''A2''], in_progress_ids = []\<rparr>
              (Some [(CONF_API_TOKEN, VStr ''T''), (CONF_KEYWORD, VStr ''paris''),
                     (CONF_UPDATE_INTERVAL, VInt 600)]) new_flow)))
   = Inr (CreateEntry (VStr ''Paris Les Halles'') []
            (Some [(CONF_API_TOKEN, VStr ''T''), (CONF_UPDATE_INTERVAL, VInt 600)]))
   \<and> collect_stations [\<lparr>uid = VStr ''A1'', station_name = VStr ''Paris Center''\<rparr>,
                       \<lparr>uid = VStr ''A2'', station_name = VStr ''Paris Nord''\<rparr>]
   = [(VStr ''A1'', VStr ''Paris Center''), (VStr ''A2'', VStr ''Paris Nord'')]"
proof -
  let ?found = "[\<lparr>uid = VStr ''A1'', station_name = VStr ''Paris Center''\<rparr>,
                 \<lparr>uid = VStr ''A2'', station_name = VStr ''Paris Nord''\<rparr>,
                 \<lparr>uid = VStr ''A1'', station_name = VStr ''Paris Les Halles''\<rparr>]"
  let ?two = "[\<lparr>uid = VStr ''A1'', station_name = VStr ''Paris Center''\<rparr>,
               \<lparr>uid = VStr ''A2'', station_name = VStr ''Paris Nord''\<rparr>]"
  let ?client = "\<lparr>search = \<lambda>_ _. Inr ?found, feed = \<lambda>_ _. Inr None\<rparr>"
  let ?client2 = "\<lparr>search = \<lambda>_ _. Inr ?two, feed = \<lambda>_ _. Inr None\<rparr>"
  let ?hass = "\<lparr>configured_ids = [VStr ''A2''], in_progress_ids = []\<rparr>"
  let ?ui = "[(CONF_API_TOKEN, VStr ''T''), (CONF_KEYWORD, VStr ''paris''),
              (CONF_UPDATE_INTERVAL, VInt 600)]"
  have h1: "map_of ?ui CONF_API_TOKEN = Some (VStr ''T'')" by (simp add: const_defs)
  have h2: "map_of ?ui CONF_KEYWORD = Some (VStr ''paris'')" by (simp add: const_defs)
  have h3: "map_of ?ui CONF_UPDATE_INTERVAL = Some (VInt 600)" by (simp add: const_defs)
  have h4: "search ?client (VStr ''T'') (VStr ''paris'') = Inr ?found" by simp
  have h5: "?found \<noteq> []" by simp
  have h6: "search ?client2 (VStr ''T'') (VStr ''paris'') = Inr ?two" by simp
  have h7: "?two \<noteq> []" by simp
  note r = search_then_pick_creates_entry[OF h1 h2 h3 h4 h5, where hass = ?hass
      and self = new_flow and sel = "VStr ''A1''" and name = "VStr ''Paris Les Halles''"
      and chosen = "[(CONF_STATION, VStr ''A1'')]"]
  note r2 = search_then_pick_creates_entry[OF h1 h2 h3 h6 h7, where hass = ?hass
      and self = new_flow and sel = "VStr ''A1''" and name = "VStr ''Paris Center''"
      and chosen = "[(CONF_STATION, VStr ''A1'')]"]
  have cs: "collect_stations ?found
            = [(VStr ''A1'', VStr ''Paris Les Halles''), (VStr ''A2'', VStr ''Paris Nord'')]"
    by (simp add: collect_stations_def)
  have form: "fst (async_step_user_search_body ?client ?hass (Some ?ui) new_flow)
      = Inr (ShowForm ''pick_station''
               [Field Required CONF_STATION None
                  (In (DictOf [(VStr ''A1'', VStr ''Paris Les Halles''),
                               (VStr ''A2'', VStr ''Paris Nord'')]))] [])"
    using r cs by simp
  have pick: "fst (async_step_pick_station_body ?hass (Some [(CONF_STATION, VStr ''A1'')])
           (snd (async_step_user_search_body ?client ?hass (Some ?ui) new_flow)))
      = Inr (CreateEntry (VStr ''Paris Les Halles'') []
            (Some [(CONF_API_TOKEN, VStr ''T''), (CONF_UPDATE_INTERVAL, VInt 600)]))"
    using r cs by (simp add: const_defs)
  have two: "collect_stations ?two
             = [(VStr ''A1'', VStr ''Paris Center''), (VStr ''A2'', VStr ''Paris Nord'')]"
    using r2 by simp
  from form pick two show ?thesis by simp
qed

subsection \<open>The entry step\<close>

lemma config_schema_rejects:
  assumes "map_of ui FLOW_TYPE = Some v" and "v \<noteq> VStr FLOW_SEARCH" and "v \<noteq> VStr FLOW_FEED"
  shows "\<exists>msg. schema_call CONFIG_SCHEMA ui = Inl (Invalid msg)"
  using assms by (simp add: schema_call_def CONFIG_SCHEMA_def)

text \<open>
  C8, as stated: submitting the entry step with the value "search" transitions to the search
  step. With the flow type \<open>search\<close> the schema of the entry form rejects the submission, the
  body of the step, called with it, shows the entry form again and not the search form, and
  the method of the module as it is fails, since the module does not load.
\<close>

theorem entry_literal_search_counterexample:
  "schema_call CONFIG_SCHEMA [(FLOW_TYPE, VStr ''search'')] = Inl (Invalid ''invalid value'')
   \<and> async_step_user_body \<lparr>search = \<lambda>_ _. Inr [], feed = \<lambda>_ _. Inr None\<rparr>
        \<lparr>configured_ids = [], in_progress_ids = []\<rparr>
        (Some [(FLOW_TYPE, VStr ''search'')]) new_flow
     = (Inr (ShowForm ''user'' CONFIG_SCHEMA []), new_flow)
   \<and> async_step_user_body \<lparr>search = \<lambda>_ _. Inr [], feed = \<lambda>_ _. Inr None\<rparr>
        \<lparr>configured_ids = [], in_progress_ids = []\<rparr>
        (Some [(FLOW_TYPE, VStr ''search'')]) new_flow
     \<noteq> async_step_user_search_body \<lparr>search = \<lambda>_ _. Inr [], feed = \<lambda>_ _. Inr None\<rparr>
        \<lparr>configured_ids = [], in_progress_ids = []\<rparr> None new_flow
   \<and> fst (async_step_user \<lparr>search = \<lambda>_ _. Inr [], feed = \<lambda>_ _. Inr None\<rparr>
        \<lparr>configured_ids = [], in_progress_ids = []\<rparr>
        (Some [(FLOW_TYPE, VStr ''search'')]) new_flow)
     = Inl SyntaxError"
  by (simp add: async_step_user_def loaded_fails async_step_user_body_def
      async_step_user_search_body_def schema_call_def CONFIG_SCHEMA_def flow_defs const_defs)

text \<open>
  C8, amended. This states the entry step as its function is written, and leaves aside that
  the module does not load (C2). Submitting the entry step with the search choice, whose
  value is \<open>FLOW_SEARCH\<close> ("Find stations from an area/city name"), runs the search step
  without input, which shows the blank search form; the feed choice, whose value is
  \<open>FLOW_FEED\<close> ("Enter the station ID"), does the same for the feed step. Any other value of
  the flow type is rejected by \<open>CONFIG_SCHEMA\<close> before the step is called; the step itself
  would show the entry form again, reaching neither step.
\<close>

theorem entry_step_routes:
  "(map_of ui FLOW_TYPE = Some (VStr FLOW_SEARCH) \<longrightarrow>
      async_step_user_body client hass (Some ui) self
        = async_step_user_search_body client hass None self)
   \<and> async_step_user_search_body client hass None self
        = (Inr (ShowForm ''user_search'' user_search_schema []), self)
   \<and> (map_of ui FLOW_TYPE = Some (VStr FLOW_FEED) \<longrightarrow>
      async_step_user_body client hass (Some ui) self
        = async_step_user_feed_body client hass None self)
   \<and> async_step_user_feed_body client hass None self
        = (Inr (ShowForm ''user_feed'' user_feed_schema []), self)
   \<and> (map_of ui FLOW_TYPE = Some v \<and> v \<noteq> VStr FLOW_SEARCH \<and> v \<noteq> VStr FLOW_FEED \<longrightarrow>
      (\<exists>msg. async_configure CONFIG_SCHEMA (async_step_user_body client hass) ui self
                = (Inl (Invalid msg), self))
      \<and> async_step_user_body client hass (Some ui) self
        = (Inr (ShowForm ''user'' CONFIG_SCHEMA []), self))
   \<and> async_configure CONFIG_SCHEMA (async_step_user_body client hass)
        [(FLOW_TYPE, VStr FLOW_SEARCH)] self
      = (Inr (ShowForm ''user_search'' user_search_schema []), self)
   \<and> async_configure CONFIG_SCHEMA (async_step_user_body client hass)
        [(FLOW_TYPE, VStr FLOW_FEED)] self
      = (Inr (ShowForm ''user_feed'' user_feed_schema []), self)"
proof (intro conjI impI)
  show "async_configure CONFIG_SCHEMA (async_step_user_body client hass)
        [(FLOW_TYPE, VStr FLOW_SEARCH)] self
      = (Inr (ShowForm ''user_search'' user_search_schema []), self)"
    by (simp add: async_configure_def schema_call_def CONFIG_SCHEMA_def handle_step_def
        async_step_user_body_def async_step_user_search_body_def flow_defs)
  show "async_configure CONFIG_SCHEMA (async_step_user_body client hass)
        [(FLOW_TYPE, VStr FLOW_FEED)] self
      = (Inr (ShowForm ''user_feed'' user_feed_schema []), self)"
    by (simp add: async_configure_def schema_call_def CONFIG_SCHEMA_def handle_step_def
        async_step_user_body_def async_step_user_feed_body_def flow_defs const_defs)
  show "async_step_user_search_body client hass None self
        = (Inr (ShowForm ''user_search'' user_search_schema []), self)"
    by (simp add: async_step_user_search_body_def flow_defs)
  show "async_step_user_feed_body client hass None self
        = (Inr (ShowForm ''user_feed'' user_feed_schema []), self)"
    by (simp add: async_step_user_feed_body_def flow_defs)
next
  assume "map_of ui FLOW_TYPE = Some (VStr FLOW_SEARCH)"
  then show "async_step_user_body client hass (Some ui) self
        = async_step_user_search_body client hass None self"
    by (simp add: async_step_user_body_def flow_defs)
next
  assume "map_of ui FLOW_TYPE = Some (VStr FLOW_FEED)"
  then show "async_step_user_body client hass (Some ui) self
        = async_step_user_feed_body client hass None self"
    by (simp add: async_step_user_body_def flow_defs const_defs)
next
  assume h: "map_of ui FLOW_TYPE = Some v \<and> v \<noteq> VStr FLOW_SEARCH \<and> v \<noteq> VStr FLOW_FEED"
  then obtain msg where "schema_call CONFIG_SCHEMA ui = Inl (Invalid msg)"
    using config_schema_rejects[of ui v] by blast
  then show "\<exists>msg. async_configure CONFIG_SCHEMA (async_step_user_body client hass) ui self
                = (Inl (Invalid msg), self)"
    by (simp add: async_configure_def)
  from h show "async_step_user_body client hass (Some ui) self
        = (Inr (ShowForm ''user'' CONFIG_SCHEMA []), self)"
    by (simp add: async_step_user_body_def flow_defs)
qed

theorem entry_step_routes_witness:
  "async_step_user_body \<lparr>search = \<lambda>_ _. Inr [], feed = \<lambda>_ _. Inr None\<rparr>
      \<lparr>configured_ids = [], in_progress_ids = []\<rparr>
      (Some [(FLOW_TYPE, VStr ''Find stations from an area/city name'')]) new_flow
     = (Inr (ShowForm ''user_search'' user_search_schema []), new_flow)
   \<and> async_step_user_body \<lparr>search = \<lambda>_ _. Inr [], feed = \<lambda>_ _. Inr None\<rparr>
      \<lparr>configured_ids = [], in_progress_ids = []\<rparr>
      (Some [(FLOW_TYPE, VStr ''Enter the station ID'')]) new_flow
     = (Inr (ShowForm ''user_feed'' user_feed_schema []), new_flow)
   \<and> (\<exists>msg. async_configure CONFIG_SCHEMA
               (async_step_user_body \<lparr>search = \<lambda>_ _. Inr [], feed = \<lambda>_ _. Inr None\<rparr>
                  \<lparr>configured_ids = [], in_progress_ids = []\<rparr>)
               [(FLOW_TYPE, VStr ''feed'')] new_flow
             = (Inl (Invalid msg), new_flow))"
  using entry_step_routes[where ui = "[(FLOW_TYPE, VStr ''Find stations from an area/city name'')]"
      and v = "VStr ''feed''"
      and client = "\<lparr>search = \<lambda>_ _. Inr [], feed = \<lambda>_ _. Inr None\<rparr>"
      and hass = "\<lparr>configured_ids = [], in_progress_ids = []\<rparr>" and self = new_flow]
    entry_step_routes[where ui = "[(FLOW_TYPE, VStr ''Enter the station ID'')]"
      and v = "VStr ''feed''"
      and client = "\<lparr>search = \<lambda>_ _. Inr [], feed = \<lambda>_ _. Inr None\<rparr>"
      and hass = "\<lparr>configured_ids = [], in_progress_ids = []\<rparr>" and self = new_flow]
    entry_step_routes[where ui = "[(FLOW_TYPE, VStr ''feed'')]" and v = "VStr ''feed''"
      and client = "\<lparr>search = \<lambda>_ _. Inr [], feed = \<lambda>_ _. Inr None\<rparr>"
      and hass = "\<lparr>configured_ids = [], in_progress_ids = []\<rparr>" and self = new_flow]
  by (simp add: FLOW_SEARCH_def FLOW_FEED_def)

subsection \<open>The options step\<close>

lemma options_schema_keys:
  assumes "schema_call (options_schema entry) submitted = Inr ui"
  shows "map fst ui = [CONF_API_TOKEN, CONF_UPDATE_INTERVAL]
         \<and> map_of ui CONF_API_TOKEN = map_of submitted CONF_API_TOKEN
         \<and> map_of ui CONF_UPDATE_INTERVAL
             = Some (case map_of submitted CONF_UPDATE_INTERVAL of
                       Some v \<Rightarrow> v
                     | None \<Rightarrow> dict_get (options entry) CONF_UPDATE_INTERVAL (VInt 900))"
  using assms
  by (auto simp add: schema_call_def options_schema_def const_defs
      split: if_splits option.splits sum.splits)

lemma options_body_step:
  "async_step_init_body entry None
     = ShowForm ''init''
         [Field Required CONF_API_TOKEN None IsStr,
          Field Optional CONF_UPDATE_INTERVAL
            (Some (case map_of (options entry) CONF_UPDATE_INTERVAL of
                     Some stored \<Rightarrow> stored | None \<Rightarrow> VInt 900)) IsInt] []
   \<and> async_step_init_body entry (Some ui) = CreateEntry (VStr '''') ui None"
  by (auto simp add: async_step_init_body_def options_schema_def dict_get_def
      DEFAULT_UPDATE_INTERVAL_def split: option.splits)


subsection \<open>Input that is present but empty\<close>

lemma body_steps_on_present_input:
  "async_step_user_search_body client hass None self
     = (Inr (ShowForm ''user_search'' user_search_schema []), self)
   \<and> async_step_user_search_body client hass (Some []) self
     = (Inr (ShowForm ''user_search'' user_search_schema []), self)
   \<and> (\<forall>ui. map_of ui FLOW_TYPE = None \<longrightarrow>
         async_step_user_body client hass (Some ui) self
         = (Inl (KeyError (VStr FLOW_TYPE)), self))
   \<and> (\<forall>ui step sch errors.
         fst (async_step_pick_station_body hass (Some ui) self)
         \<noteq> Inr (ShowForm step sch errors))
   \<and> (\<forall>ui step sch errors.
         fst (async_step_user_feed_body client hass (Some ui) self)
         \<noteq> Inr (ShowForm step sch errors))
   \<and> (\<forall>ui. async_step_init_body entry (Some ui) = CreateEntry (VStr '''') ui None)"
proof (intro conjI allI impI)
  fix ui step sch errors
  show "fst (async_step_pick_station_body hass (Some ui) self)
        \<noteq> Inr (ShowForm step sch errors)"
    by (auto simp add: async_step_pick_station_body_def flow_defs
        split: option.splits sum.splits if_splits)
  show "fst (async_step_user_feed_body client hass (Some ui) self)
         \<noteq> Inr (ShowForm step sch errors)"
    by (auto simp add: async_step_user_feed_body_def feed_create_entry_def station_uid_def
        flow_defs split: option.splits sum.splits if_splits)
qed (simp_all add: async_step_user_search_body_def async_step_user_body_def
    async_step_init_body_def flow_defs)


end
